theory Spec2Isabelle
  imports Main
begin

section \<open>Python strings\<close>

text \<open>
  A Python \<open>str\<close> is a sequence of Unicode code points; it is modelled as a list of
  code points. \<open>py\<close> turns an Isabelle string literal into such a list.
\<close>

type_synonym str = "nat list"

definition py :: "string \<Rightarrow> str" where
  "py s = map of_char s"

text \<open>
  \<open>str.isspace\<close> on one character: the code points that Python's \<open>strip\<close>,
  \<open>lstrip\<close> and \<open>rstrip\<close> remove when called without an argument.
\<close>

definition isspace :: "nat \<Rightarrow> bool" where
  "isspace c \<longleftrightarrow>
     (9 \<le> c \<and> c \<le> 13) \<or> (28 \<le> c \<and> c \<le> 32) \<or> c = 133 \<or> c = 160 \<or> c = 5760 \<or>
     (8192 \<le> c \<and> c \<le> 8202) \<or> c = 8232 \<or> c = 8233 \<or> c = 8239 \<or> c = 8287 \<or> c = 12288"

definition lstrip :: "str \<Rightarrow> str" where
  "lstrip s = dropWhile isspace s"

definition rstrip :: "str \<Rightarrow> str" where
  "rstrip s = rev (dropWhile isspace (rev s))"

definition strip :: "str \<Rightarrow> str" where
  "strip s = rstrip (lstrip s)"

definition startswith :: "str \<Rightarrow> str \<Rightarrow> bool" where
  "startswith s p \<longleftrightarrow> take (length p) s = p"

definition endswith :: "str \<Rightarrow> str \<Rightarrow> bool" where
  "endswith s p \<longleftrightarrow> length p \<le> length s \<and> drop (length s - length p) s = p"

text \<open>
  \<open>s.split(sep)\<close> for a separator of one character: the segments between the
  occurrences of \<open>sep\<close>, so one segment more than there are separators. The second
  argument of \<open>split_acc\<close> is the segment being read, reversed.
\<close>

fun split_acc :: "nat \<Rightarrow> str \<Rightarrow> str \<Rightarrow> str list" where
  "split_acc sep cur [] = [rev cur]"
| "split_acc sep cur (c # cs) =
     (if c = sep then rev cur # split_acc sep [] cs else split_acc sep (c # cur) cs)"

definition split :: "str \<Rightarrow> nat \<Rightarrow> str list" where
  "split s sep = split_acc sep [] s"

text \<open>\<open>sep.join(xs)\<close>.\<close>

fun join :: "str \<Rightarrow> str list \<Rightarrow> str" where
  "join sep [] = []"
| "join sep [x] = x"
| "join sep (x # y # ys) = x @ sep @ join sep (y # ys)"

section \<open>Exceptions\<close>

text \<open>
  An exception is a value: its class and the text that \<open>str(e)\<close> gives.
\<close>

datatype py_error =
    AttributeError str
  | FileNotFoundError str
  | IsADirectoryError str
  | PermissionError str
  | FileExistsError str
  | JSONDecodeError str
  | OSError str

fun str_of_error :: "py_error \<Rightarrow> str" where
  "str_of_error (AttributeError m) = m"
| "str_of_error (FileNotFoundError m) = m"
| "str_of_error (IsADirectoryError m) = m"
| "str_of_error (PermissionError m) = m"
| "str_of_error (FileExistsError m) = m"
| "str_of_error (JSONDecodeError m) = m"
| "str_of_error (OSError m) = m"

section \<open>ui/statistics.py\<close>

text \<open>
  The statistics that \<open>analyze_current_file\<close> computes from the content of the file.
  \<open>sum(1 for line in lines if c)\<close> is the number of lines that satisfy \<open>c\<close>.
  The word count (a regular expression) and the average line length (a float) are
  not part of the model.
\<close>

record file_stats =
  total_lines :: nat
  empty_lines :: nat
  code_lines :: nat
  comment_lines :: nat
  total_characters :: nat

definition is_empty_line :: "str \<Rightarrow> bool" where
  "is_empty_line line \<longleftrightarrow> strip line = []"

definition is_code_line :: "str \<Rightarrow> bool" where
  "is_code_line line \<longleftrightarrow> strip line \<noteq> [] \<and> \<not> startswith (strip line) (py ''#'')"

definition is_comment_line :: "str \<Rightarrow> bool" where
  "is_comment_line line \<longleftrightarrow> startswith (strip line) (py ''#'')"

definition file_statistics :: "str \<Rightarrow> file_stats" where
  "file_statistics content =
     (let lines = split content 10 in
      \<lparr> total_lines = length lines,
        empty_lines = length (filter is_empty_line lines),
        code_lines = length (filter is_code_line lines),
        comment_lines = length (filter is_comment_line lines),
        total_characters = length content \<rparr>)"

text \<open>
  What the dialog shows: a warning box (title and text) or the table of statistics.
  \<open>read_file\<close> is the file system: the text of the file at a path, or the exception
  that opening or reading it raises.
\<close>

datatype shown = Warning str str | Information str str | Statistics file_stats

definition analyze_current_file ::
  "(str \<Rightarrow> py_error + str) \<Rightarrow> str option \<Rightarrow> shown" where
  "analyze_current_file read_file current_file =
     (case current_file of
        None \<Rightarrow> Warning (py ''Error'') (py ''No file selected'')
      | Some f \<Rightarrow>
          if f = [] then Warning (py ''Error'') (py ''No file selected'')
          else (case read_file f of
                  Inl e \<Rightarrow> Warning (py ''Error'') (py ''Failed to analyze file: '' @ str_of_error e)
                | Inr content \<Rightarrow> Statistics (file_statistics content)))"

section \<open>ui/debugger.py\<close>

text \<open>
  \<open>DebuggerThread\<close>: the four flags that the buttons of the dialog set, and the texts
  emitted through \<open>output_signal\<close>, oldest first.
\<close>

record debugger_thread =
  should_continue :: bool
  should_step :: bool
  should_step_in :: bool
  should_step_out :: bool
  output_signal :: "str list"

definition continue_execution :: "debugger_thread \<Rightarrow> debugger_thread" where
  "continue_execution self = self\<lparr>should_continue := True\<rparr>"

definition step :: "debugger_thread \<Rightarrow> debugger_thread" where
  "step self = self\<lparr>should_step := True\<rparr>"

definition step_in :: "debugger_thread \<Rightarrow> debugger_thread" where
  "step_in self = self\<lparr>should_step_in := True\<rparr>"

definition step_out :: "debugger_thread \<Rightarrow> debugger_thread" where
  "step_out self = self\<lparr>should_step_out := True\<rparr>"

definition DebuggerThread_init :: debugger_thread where
  "DebuggerThread_init =
     \<lparr>should_continue = False, should_step = False, should_step_in = False,
      should_step_out = False, output_signal = []\<rparr>"

text \<open>
  \<open>CustomDebugger(pdb.Pdb)\<close>: the thread it reports to and the chunks written since
  the last emitted text.
\<close>

record custom_debugger =
  debugger_thread :: debugger_thread
  output_buffer :: "str list"

definition CustomDebugger_init :: "debugger_thread \<Rightarrow> custom_debugger" where
  "CustomDebugger_init t = \<lparr>debugger_thread = t, output_buffer = []\<rparr>"

definition write_text :: "custom_debugger \<Rightarrow> str \<Rightarrow> custom_debugger" where
  "write_text self text =
     (let self1 = self\<lparr>output_buffer := output_buffer self @ [text]\<rparr> in
      if endswith text [10] then
        (let output = concat (output_buffer self1);
             t = debugger_thread self1 in
         self1\<lparr>debugger_thread := t\<lparr>output_signal := output_signal t @ [output]\<rparr>,
               output_buffer := []\<rparr>)
      else self1)"

text \<open>A sequence of calls of \<open>write\<close>, one for each chunk.\<close>

fun write_all :: "custom_debugger \<Rightarrow> str list \<Rightarrow> custom_debugger" where
  "write_all self [] = self"
| "write_all self (text # chunks) = write_all (write_text self text) chunks"

text \<open>
  \<open>self.msleep(100)\<close> in \<open>readline\<close>: \<open>self\<close> is the \<open>CustomDebugger\<close>, whose only
  base class is \<open>pdb.Pdb\<close>. Neither defines \<open>msleep\<close> (it is a method of \<open>QThread\<close>,
  so of \<open>self.debugger_thread\<close>), and the attribute lookup raises.
\<close>

definition msleep :: "custom_debugger \<Rightarrow> nat \<Rightarrow> py_error + unit" where
  "msleep self ms =
     Inl (AttributeError ([39] @ py ''CustomDebugger'' @ [39] @ py '' object has no attribute ''
            @ [39] @ py ''msleep'' @ [39]))"

text \<open>
  \<open>readline\<close>: the loop \<open>while True\<close>. \<open>ui k\<close> is what the button clicks of the UI
  thread do to the flags while the \<open>k\<close>-th sleep lasts. The result is \<open>None\<close> when the
  loop runs forever, otherwise the exception raised or the command returned, with
  the state of the debugger at that moment.
\<close>

partial_function (option) readline ::
  "(nat \<Rightarrow> debugger_thread \<Rightarrow> debugger_thread) \<Rightarrow> nat \<Rightarrow> custom_debugger
     \<Rightarrow> (py_error + str \<times> custom_debugger) option" where
  "readline ui k self =
     (let t = debugger_thread self in
      if should_continue t then
        Some (Inr (py ''c'', self\<lparr>debugger_thread := t\<lparr>should_continue := False\<rparr>\<rparr>))
      else if should_step t then
        Some (Inr (py ''n'', self\<lparr>debugger_thread := t\<lparr>should_step := False\<rparr>\<rparr>))
      else if should_step_in t then
        Some (Inr (py ''s'', self\<lparr>debugger_thread := t\<lparr>should_step_in := False\<rparr>\<rparr>))
      else if should_step_out t then
        Some (Inr (py ''r'', self\<lparr>debugger_thread := t\<lparr>should_step_out := False\<rparr>\<rparr>))
      else (case msleep self 100 of
              Inl e \<Rightarrow> Some (Inl e)
            | Inr _ \<Rightarrow> readline ui (Suc k) (self\<lparr>debugger_thread := ui k t\<rparr>)))"

section \<open>editor/editor.py\<close>

text \<open>
  The document of the editor is its list of text blocks (lines). A \<open>QTextBlock\<close> is a
  position in that list; it is valid when the position is inside the list, and
  \<open>block.next()\<close> is the next position. A new block has the user state \<open>-1\<close>.
\<close>

record text_block =
  block_text :: str
  userState :: int
  visible :: bool

type_synonym document = "text_block list"

definition isValid :: "document \<Rightarrow> nat \<Rightarrow> bool" where
  "isValid doc block \<longleftrightarrow> block < length doc"

definition get_indent_level :: "text_block \<Rightarrow> nat" where
  "get_indent_level block =
     (let text = block_text block in length text - length (lstrip text))"

text \<open>
  The loop of \<open>toggle_fold\<close>, the same in both branches but for the visibility \<open>v\<close> it
  sets: \<open>while next_block.isValid() and self.get_indent_level(next_block) > level\<close>.
\<close>

function set_children_visible :: "bool \<Rightarrow> nat \<Rightarrow> nat \<Rightarrow> document \<Rightarrow> document" where
  "set_children_visible v level next_block doc =
     (if isValid doc next_block \<and> get_indent_level (doc ! next_block) > level
      then set_children_visible v level (Suc next_block)
             (doc[next_block := (doc ! next_block)\<lparr>visible := v\<rparr>])
      else doc)"
  by pat_completeness auto
termination
  by (relation "measure (\<lambda>(v, level, next_block, doc). length doc - next_block)")
     (auto simp: isValid_def)

declare set_children_visible.simps [simp del]

definition toggle_fold :: "document \<Rightarrow> nat \<Rightarrow> document" where
  "toggle_fold doc block =
     (if isValid doc block then
        (if userState (doc ! block) = 1 then
           (let doc1 = doc[block := (doc ! block)\<lparr>userState := 0\<rparr>];
                level = get_indent_level (doc1 ! block)
            in set_children_visible True level (Suc block) doc1)
         else
           (let doc1 = doc[block := (doc ! block)\<lparr>userState := 1\<rparr>];
                level = get_indent_level (doc1 ! block)
            in set_children_visible False level (Suc block) doc1))
      else doc)"

definition can_fold :: "document \<Rightarrow> nat \<Rightarrow> bool" where
  "can_fold doc block =
     (if \<not> isValid doc block then False
      else (let level = get_indent_level (doc ! block);
                next_block = Suc block
            in isValid doc next_block \<and> get_indent_level (doc ! next_block) > level))"

section \<open>The operating system\<close>

text \<open>\<open>os.path.join\<close> of two components (\<open>posixpath\<close>).\<close>

definition os_path_join :: "str \<Rightarrow> str \<Rightarrow> str" where
  "os_path_join a b =
     (if startswith b (py ''/'') then b
      else if a = [] \<or> endswith a (py ''/'') then a @ b
      else a @ py ''/'' @ b)"

text \<open>
  The file system and the \<open>json\<close> module are not code of the repository: the calls
  that the managers make are parameters of the model, as functions on the state
  \<open>'w\<close> of the file system, and \<open>'j\<close> is the type of the values written and read.
  \<^item> \<open>os_path_exists\<close> is \<open>os.path.exists(p)\<close>;
  \<^item> \<open>os_makedirs\<close> is \<open>os.makedirs(p)\<close>;
  \<^item> \<open>json_dump_to\<close> is \<open>with open(p, 'w', encoding='utf-8') as f: json.dump(data, f, indent=4)\<close>.
  A call that changes the file system returns the exception it raises, if any, and
  the state it leaves, which an exception does not undo. Reading a file,
  \<open>with open(p, 'r', encoding='utf-8') as f: json.load(f)\<close>, is the parameter
  \<open>json_load_from\<close> of the two functions that do it: from the state and the path to
  the value read or the exception raised.
\<close>

record ('w, 'j) system =
  os_path_exists :: "'w \<Rightarrow> str \<Rightarrow> bool"
  os_makedirs :: "'w \<Rightarrow> str \<Rightarrow> py_error option \<times> 'w"
  json_dump_to :: "'w \<Rightarrow> str \<Rightarrow> 'j \<Rightarrow> py_error option \<times> 'w"

text \<open>
  A system for the examples. Its state is the list of the calls made on it, oldest
  first: a path with \<open>None\<close> for \<open>os.makedirs\<close>, a path with the value for a dump.
  No call raises, and a path exists once it was created or written.
\<close>

definition recording :: "((str \<times> 'j option) list, 'j) system" where
  "recording =
     \<lparr>os_path_exists = (\<lambda>w p. p \<in> set (map fst w)),
      os_makedirs = (\<lambda>w p. (None, w @ [(p, None)])),
      json_dump_to = (\<lambda>w p d. (None, w @ [(p, Some d)]))\<rparr>"

section \<open>ui/projectmanager.py\<close>

text \<open>
  The project object that \<open>create_project\<close> builds and the other operations update:
  the dictionary with the keys \<open>name\<close>, \<open>path\<close> and \<open>files\<close>.
\<close>

record project =
  name :: str
  path :: str
  files :: "str list"

text \<open>
  \<open>ProjectManager\<close>. \<open>open_project\<close> stores whatever value the file holds, so the
  type of the current project is a parameter.
\<close>

record 'j project_manager =
  current_project :: "'j option"

text \<open>
  \<open>CreateProjectDialog\<close>: the two line edits. The user types into them, picks a
  directory with Browse (nothing changes when that is cancelled, the empty path),
  and clicks Create or Cancel.
\<close>

record create_project_dialog =
  name_edit :: str
  path_edit :: str

datatype dialog_code = Accepted | Rejected

datatype user_action = TypeName str | TypePath str | Browse str | ClickCreate | ClickCancel

definition browse_path :: "create_project_dialog \<Rightarrow> str \<Rightarrow> create_project_dialog" where
  "browse_path self chosen = (if chosen \<noteq> [] then self\<lparr>path_edit := chosen\<rparr> else self)"

text \<open>
  \<open>accept\<close>: the warning shown, or \<open>None\<close> when \<open>super().accept()\<close> is reached and the
  dialog closes as accepted.
\<close>

definition accept :: "create_project_dialog \<Rightarrow> shown option" where
  "accept self =
     (if name_edit self = [] then Some (Warning (py ''Error'') (py ''Project name is required''))
      else if path_edit self = [] then
        Some (Warning (py ''Error'') (py ''Project path is required''))
      else None)"

text \<open>
  \<open>dialog.exec_()\<close>: the dialog handles the actions of the user until it closes. When
  the actions end without a click that closes it, the window was closed: rejected.
\<close>

fun exec_dialog :: "create_project_dialog \<Rightarrow> user_action list
    \<Rightarrow> dialog_code \<times> create_project_dialog \<times> shown list" where
  "exec_dialog self [] = (Rejected, self, [])"
| "exec_dialog self (TypeName s # rest) = exec_dialog (self\<lparr>name_edit := s\<rparr>) rest"
| "exec_dialog self (TypePath s # rest) = exec_dialog (self\<lparr>path_edit := s\<rparr>) rest"
| "exec_dialog self (Browse s # rest) = exec_dialog (browse_path self s) rest"
| "exec_dialog self (ClickCancel # rest) = (Rejected, self, [])"
| "exec_dialog self (ClickCreate # rest) =
     (case accept self of
        None \<Rightarrow> (Accepted, self, [])
      | Some warning \<Rightarrow>
          (case exec_dialog self rest of (code, self', shown) \<Rightarrow> (code, self', warning # shown)))"

definition new_dialog :: create_project_dialog where
  "new_dialog = \<lparr>name_edit = [], path_edit = []\<rparr>"

text \<open>
  The operations return what the call returns or the exception it raises, and the
  state of the manager and of the file system after it, which an exception does
  not undo.
\<close>

definition create_project ::
  "('w, project) system \<Rightarrow> user_action list \<Rightarrow> project project_manager \<times> 'w
     \<Rightarrow> (py_error + project option) \<times> project project_manager \<times> 'w" where
  "create_project sys actions st =
     (case st of (self, w) \<Rightarrow>
      (case exec_dialog new_dialog actions of (code, dialog, shown) \<Rightarrow>
       if code = Accepted then
         (let project_path = path_edit dialog;
              project_name = name_edit dialog
          in (case (if \<not> os_path_exists sys w project_path
                    then os_makedirs sys w project_path else (None, w)) of
                (Some e, w1) \<Rightarrow> (Inl e, self, w1)
              | (None, w1) \<Rightarrow>
                  (let project_file = os_path_join project_path (project_name @ py ''.webe.json'');
                       project_data = \<lparr>name = project_name, path = project_path, files = []\<rparr>
                   in (case json_dump_to sys w1 project_file project_data of
                         (Some e, w2) \<Rightarrow> (Inl e, self, w2)
                       | (None, w2) \<Rightarrow>
                           (Inr (Some project_data),
                            self\<lparr>current_project := Some project_data\<rparr>, w2)))))
       else (Inr None, self, w)))"

text \<open>
  \<open>open_project\<close>: \<open>file_path\<close> is the answer of the file dialog, empty when it is
  cancelled. The result is the value returned and the message boxes shown.
\<close>

definition open_project ::
  "('w \<Rightarrow> str \<Rightarrow> py_error + 'j) \<Rightarrow> str \<Rightarrow> 'j project_manager \<times> 'w
     \<Rightarrow> ('j option \<times> shown list) \<times> 'j project_manager \<times> 'w" where
  "open_project json_load_from file_path st =
     (case st of (self, w) \<Rightarrow>
      if file_path \<noteq> [] then
        (case json_load_from w file_path of
           Inr project_data \<Rightarrow>
             ((Some project_data, []), self\<lparr>current_project := Some project_data\<rparr>, w)
         | Inl e \<Rightarrow>
             ((None, [Warning (py ''Error'') (py ''Failed to open project: '' @ str_of_error e)]),
              self, w))
      else ((None, []), self, w))"

definition add_file_to_project ::
  "('w, project) system \<Rightarrow> project project_manager \<times> 'w \<Rightarrow> str
     \<Rightarrow> (py_error + unit) \<times> project project_manager \<times> 'w" where
  "add_file_to_project sys st file_path =
     (case st of (self, w) \<Rightarrow>
      (case current_project self of
         None \<Rightarrow> (Inr (), self, w)
       | Some p \<Rightarrow>
           (let project_file = os_path_join (path p) (name p @ py ''.webe.json'') in
            if file_path \<notin> set (files p) then
              (let p1 = p\<lparr>files := files p @ [file_path]\<rparr>;
                   self1 = self\<lparr>current_project := Some p1\<rparr>
               in (case json_dump_to sys w project_file p1 of
                     (Some e, w1) \<Rightarrow> (Inl e, self1, w1)
                   | (None, w1) \<Rightarrow> (Inr (), self1, w1)))
            else (Inr (), self, w))))"

text \<open>\<open>list.remove\<close> deletes the first occurrence.\<close>

definition remove_file_from_project ::
  "('w, project) system \<Rightarrow> project project_manager \<times> 'w \<Rightarrow> str
     \<Rightarrow> (py_error + unit) \<times> project project_manager \<times> 'w" where
  "remove_file_from_project sys st file_path =
     (case st of (self, w) \<Rightarrow>
      (case current_project self of
         None \<Rightarrow> (Inr (), self, w)
       | Some p \<Rightarrow>
           (let project_file = os_path_join (path p) (name p @ py ''.webe.json'') in
            if file_path \<in> set (files p) then
              (let p1 = p\<lparr>files := remove1 file_path (files p)\<rparr>;
                   self1 = self\<lparr>current_project := Some p1\<rparr>
               in (case json_dump_to sys w project_file p1 of
                     (Some e, w1) \<Rightarrow> (Inl e, self1, w1)
                   | (None, w1) \<Rightarrow> (Inr (), self1, w1)))
            else (Inr (), self, w))))"

text \<open>
  \<open>ProjectFilesDialog\<close> works on the project object it was opened with, which is
  the current project of the manager (the same dictionary). \<open>add_file\<close> gets the
  paths picked in the file dialog, \<open>remove_file\<close> the texts of the selected items.
\<close>

definition save_project ::
  "('w, project) system \<Rightarrow> 'w \<Rightarrow> project \<Rightarrow> py_error option \<times> 'w" where
  "save_project sys w project_data =
     (let project_file = os_path_join (path project_data) (name project_data @ py ''.webe.json'')
      in json_dump_to sys w project_file project_data)"

definition add_file ::
  "('w, project) system \<Rightarrow> project project_manager \<times> 'w \<Rightarrow> str list
     \<Rightarrow> (py_error + unit) \<times> project project_manager \<times> 'w" where
  "add_file sys st file_paths =
     (case st of (self, w) \<Rightarrow>
      (case current_project self of
         None \<Rightarrow> (Inr (), self, w)
       | Some project_data \<Rightarrow>
           (let p1 = foldl (\<lambda>p file_path.
                        if file_path \<notin> set (files p) then p\<lparr>files := files p @ [file_path]\<rparr>
                        else p) project_data file_paths;
                self1 = self\<lparr>current_project := Some p1\<rparr>
            in (case save_project sys w p1 of
                  (Some e, w1) \<Rightarrow> (Inl e, self1, w1)
                | (None, w1) \<Rightarrow> (Inr (), self1, w1)))))"

definition remove_file ::
  "('w, project) system \<Rightarrow> project project_manager \<times> 'w \<Rightarrow> str list
     \<Rightarrow> (py_error + unit) \<times> project project_manager \<times> 'w" where
  "remove_file sys st selected_items =
     (case st of (self, w) \<Rightarrow>
      (case current_project self of
         None \<Rightarrow> (Inr (), self, w)
       | Some project_data \<Rightarrow>
           (let p1 = foldl (\<lambda>p file_path.
                        if file_path \<in> set (files p)
                        then p\<lparr>files := remove1 file_path (files p)\<rparr>
                        else p) project_data selected_items;
                self1 = self\<lparr>current_project := Some p1\<rparr>
            in (case save_project sys w p1 of
                  (Some e, w1) \<Rightarrow> (Inl e, self1, w1)
                | (None, w1) \<Rightarrow> (Inr (), self1, w1)))))"

text \<open>A sequence of calls on the files of the project, from the manager or the dialog.\<close>

datatype project_call =
    AddFileToProject str
  | RemoveFileFromProject str
  | DialogAddFile "str list"
  | DialogRemoveFile "str list"

fun call :: "('w, project) system \<Rightarrow> project project_manager \<times> 'w \<Rightarrow> project_call
    \<Rightarrow> (py_error + unit) \<times> project project_manager \<times> 'w" where
  "call sys st (AddFileToProject f) = add_file_to_project sys st f"
| "call sys st (RemoveFileFromProject f) = remove_file_from_project sys st f"
| "call sys st (DialogAddFile fs) = add_file sys st fs"
| "call sys st (DialogRemoveFile fs) = remove_file sys st fs"

fun calls :: "('w, project) system \<Rightarrow> project project_manager \<times> 'w \<Rightarrow> project_call list
    \<Rightarrow> project project_manager \<times> 'w" where
  "calls sys st [] = st"
| "calls sys st (c # cs) = calls sys (snd (call sys st c)) cs"

text \<open>The files of the current project, if there is one, hold no path twice.\<close>

definition no_duplicates :: "project project_manager \<times> 'w \<Rightarrow> bool" where
  "no_duplicates st =
     (case current_project (fst st) of None \<Rightarrow> True | Some p \<Rightarrow> distinct (files p))"

section \<open>ui/snippets.py\<close>

text \<open>A snippet: the dictionary with the keys \<open>name\<close>, \<open>prefix\<close> and \<open>body\<close>.\<close>

record snippet =
  snippet_name :: str
  prefix :: str
  body :: str

record snippet_manager =
  snippets :: "snippet list"

text \<open>
  The path of the snippet store, from the directory \<open>here\<close> of the module:
  \<open>os.path.join(os.path.dirname(__file__), '..', 'snippets.json')\<close>.
\<close>

definition snippet_file :: "str \<Rightarrow> str" where
  "snippet_file here = os_path_join (os_path_join here (py ''..'')) (py ''snippets.json'')"

text \<open>The default snippets of \<open>load_snippets\<close>, one definition for each.\<close>

definition default_snippet_for :: snippet where
  "default_snippet_for =
     \<lparr>snippet_name = py ''For Loop'',
       prefix = py ''for'',
       body = py ''for item in iterable:'' @ [10] @ py ''    # TODO: Process item''
          @ [10] @ py ''    pass''\<rparr>"

definition default_snippet_while :: snippet where
  "default_snippet_while =
     \<lparr>snippet_name = py ''While Loop'',
       prefix = py ''while'',
       body = py ''while condition:'' @ [10] @ py ''    # TODO: Process'' @ [10]
          @ py ''    pass''\<rparr>"

definition default_snippet_if :: snippet where
  "default_snippet_if =
     \<lparr>snippet_name = py ''If Statement'',
       prefix = py ''if'',
       body = py ''if condition:'' @ [10] @ py ''    # TODO: Process'' @ [10]
          @ py ''    pass'' @ [10] @ py ''elif another_condition:'' @ [10]
          @ py ''    # TODO: Process'' @ [10] @ py ''    pass'' @ [10]
          @ py ''else:'' @ [10] @ py ''    # TODO: Process'' @ [10]
          @ py ''    pass''\<rparr>"

definition default_snippet_def :: snippet where
  "default_snippet_def =
     \<lparr>snippet_name = py ''Function Definition'',
       prefix = py ''def'',
       body = py ''def function_name(parameters):'' @ [10] @ py ''    ''
          @ [34, 34, 34] @ py ''Function docstring'' @ [34, 34, 34, 10]
          @ py ''    # TODO: Implement function'' @ [10]
          @ py ''    return result''\<rparr>"

definition default_snippet_class :: snippet where
  "default_snippet_class =
     \<lparr>snippet_name = py ''Class Definition'',
       prefix = py ''class'',
       body = py ''class ClassName:'' @ [10] @ py ''    '' @ [34, 34, 34]
          @ py ''Class docstring'' @ [34, 34, 34, 10] @ py ''    '' @ [10]
          @ py ''    def __init__(self, parameters):'' @ [10]
          @ py ''        self.parameters = parameters'' @ [10] @ py ''    ''
          @ [10] @ py ''    def method(self):'' @ [10] @ py ''        ''
          @ [34, 34, 34] @ py ''Method docstring'' @ [34, 34, 34, 10]
          @ py ''        # TODO: Implement method'' @ [10] @ py ''        pass''\<rparr>"

definition default_snippet_try :: snippet where
  "default_snippet_try =
     \<lparr>snippet_name = py ''Try-Except Block'',
       prefix = py ''try'',
       body = py ''try:'' @ [10] @ py ''    # TODO: Risky operation'' @ [10]
          @ py ''    pass'' @ [10] @ py ''except Exception as e:'' @ [10]
          @ py ''    # TODO: Handle exception'' @ [10] @ py ''    print(f''
          @ [39] @ py ''Error: {e}'' @ [39] @ py '')'' @ [10] @ py ''finally:''
          @ [10] @ py ''    # TODO: Cleanup'' @ [10] @ py ''    pass''\<rparr>"

definition default_snippet_import :: snippet where
  "default_snippet_import =
     \<lparr>snippet_name = py ''Import Statements'',
       prefix = py ''import'',
       body = py ''import os'' @ [10] @ py ''import sys'' @ [10]
          @ py ''import json'' @ [10] @ py ''from datetime import datetime''\<rparr>"

definition default_snippet_main :: snippet where
  "default_snippet_main =
     \<lparr>snippet_name = py ''Main Block'',
       prefix = py ''main'',
       body = py ''if __name__ == '' @ [34] @ py ''__main__'' @ [34] @ py '':''
          @ [10] @ py ''    # TODO: Main execution'' @ [10] @ py ''    pass''\<rparr>"

definition default_snippets :: "snippet list" where
  "default_snippets =
     [default_snippet_for, default_snippet_while, default_snippet_if, default_snippet_def,
      default_snippet_class, default_snippet_try, default_snippet_import, default_snippet_main]"

text \<open>\<open>save_snippets\<close> swallows every exception and returns whether the file was written.\<close>

definition save_snippets ::
  "('w, snippet list) system \<Rightarrow> str \<Rightarrow> 'w \<Rightarrow> snippet list \<Rightarrow> bool \<times> 'w" where
  "save_snippets sys here w snips =
     (case json_dump_to sys w (snippet_file here) snips of
        (None, w1) \<Rightarrow> (True, w1)
      | (Some e, w1) \<Rightarrow> (False, w1))"

definition load_snippets ::
  "('w, snippet list) system \<Rightarrow> ('w \<Rightarrow> str \<Rightarrow> py_error + snippet list) \<Rightarrow> str \<Rightarrow> 'w
     \<Rightarrow> snippet list \<times> 'w" where
  "load_snippets sys json_load_from here w =
     (if os_path_exists sys w (snippet_file here) then
        (case json_load_from w (snippet_file here) of
           Inr loaded \<Rightarrow> (loaded, w)
         | Inl e \<Rightarrow> (default_snippets, w))
      else (default_snippets, snd (save_snippets sys here w default_snippets)))"

definition add_snippet ::
  "('w, snippet list) system \<Rightarrow> str \<Rightarrow> snippet_manager \<times> 'w \<Rightarrow> str \<Rightarrow> str \<Rightarrow> str
     \<Rightarrow> snippet_manager \<times> 'w" where
  "add_snippet sys here st n p b =
     (case st of (self, w) \<Rightarrow>
      (let snippet = \<lparr>snippet_name = n, prefix = p, body = b\<rparr>;
           self1 = self\<lparr>snippets := snippets self @ [snippet]\<rparr>
       in (self1, snd (save_snippets sys here w (snippets self1)))))"

definition update_snippet ::
  "('w, snippet list) system \<Rightarrow> str \<Rightarrow> snippet_manager \<times> 'w \<Rightarrow> int \<Rightarrow> str \<Rightarrow> str \<Rightarrow> str
     \<Rightarrow> snippet_manager \<times> 'w" where
  "update_snippet sys here st index n p b =
     (case st of (self, w) \<Rightarrow>
      if 0 \<le> index \<and> index < int (length (snippets self)) then
        (let self1 = self\<lparr>snippets :=
                (snippets self)[nat index := \<lparr>snippet_name = n, prefix = p, body = b\<rparr>]\<rparr>
         in (self1, snd (save_snippets sys here w (snippets self1))))
      else (self, w))"

definition delete_snippet ::
  "('w, snippet list) system \<Rightarrow> str \<Rightarrow> snippet_manager \<times> 'w \<Rightarrow> int
     \<Rightarrow> snippet_manager \<times> 'w" where
  "delete_snippet sys here st index =
     (case st of (self, w) \<Rightarrow>
      if 0 \<le> index \<and> index < int (length (snippets self)) then
        (let self1 = self\<lparr>snippets :=
                take (nat index) (snippets self) @ drop (Suc (nat index)) (snippets self)\<rparr>
         in (self1, snd (save_snippets sys here w (snippets self1))))
      else (self, w))"

text \<open>
  \<open>SnippetDialog\<close>: the three edit fields and the row of the current item of the
  list, if there is one. The handlers of the Add and Update buttons return the
  message box they show.
\<close>

record snippet_dialog =
  snippet_name_edit :: str
  prefix_edit :: str
  body_edit :: str
  current_row :: "nat option"

definition SnippetDialog_add_snippet ::
  "('w, snippet list) system \<Rightarrow> str \<Rightarrow> snippet_dialog \<Rightarrow> snippet_manager \<times> 'w
     \<Rightarrow> shown \<times> snippet_manager \<times> 'w" where
  "SnippetDialog_add_snippet sys here self st =
     (let n = snippet_name_edit self; p = prefix_edit self; b = body_edit self in
      if n = [] \<or> p = [] \<or> b = [] then
        (Warning (py ''Error'') (py ''All fields are required''), st)
      else
        (Information (py ''Success'') (py ''Snippet added successfully''),
         add_snippet sys here st n p b))"

definition SnippetDialog_update_snippet ::
  "('w, snippet list) system \<Rightarrow> str \<Rightarrow> snippet_dialog \<Rightarrow> snippet_manager \<times> 'w
     \<Rightarrow> shown \<times> snippet_manager \<times> 'w" where
  "SnippetDialog_update_snippet sys here self st =
     (case current_row self of
        None \<Rightarrow> (Warning (py ''Error'') (py ''No snippet selected''), st)
      | Some index \<Rightarrow>
          (let n = snippet_name_edit self; p = prefix_edit self; b = body_edit self in
           if n = [] \<or> p = [] \<or> b = [] then
             (Warning (py ''Error'') (py ''All fields are required''), st)
           else
             (Information (py ''Success'') (py ''Snippet updated successfully''),
              update_snippet sys here st (int index) n p b)))"

section \<open>ui/gitintegration.py\<close>

text \<open>
  \<open>GitManager\<close>. A path argument is \<open>None\<close> or a string, and \<open>not repo_path\<close> holds
  for \<open>None\<close> and for the empty string.
\<close>

record git_manager =
  current_repo :: "str option"

record completed_process =
  returncode :: int
  stdout :: str
  stderr :: str

definition falsy :: "str option \<Rightarrow> bool" where
  "falsy repo_path \<longleftrightarrow> repo_path = None \<or> repo_path = Some []"

text \<open>
  \<open>run\<close> is \<open>subprocess.run\<close> with \<open>shell=True, capture_output=True, text=True\<close>: from
  the command and the working directory to the completed process, or to the
  exception raised. \<open>launched\<close> lists the calls of \<open>subprocess.run\<close> made so far.
\<close>

type_synonym subprocess_run = "str \<Rightarrow> str \<Rightarrow> py_error + completed_process"

type_synonym git_result = "(int option \<times> str) \<times> (str \<times> str) list"

definition run_git_command ::
  "subprocess_run \<Rightarrow> git_manager \<Rightarrow> (str \<times> str) list \<Rightarrow> str \<Rightarrow> str option \<Rightarrow> git_result" where
  "run_git_command run self launched command repo_path =
     (let repo_path1 = (if falsy repo_path then current_repo self else repo_path) in
      if falsy repo_path1 then ((None, py ''No repository selected''), launched)
      else (case run command (the repo_path1) of
              Inr result \<Rightarrow>
                ((Some (returncode result), stdout result @ stderr result),
                 launched @ [(command, the repo_path1)])
            | Inl e \<Rightarrow> ((Some 1, str_of_error e), launched @ [(command, the repo_path1)])))"

definition init_repo ::
  "subprocess_run \<Rightarrow> git_manager \<Rightarrow> (str \<times> str) list \<Rightarrow> str option \<Rightarrow> git_result" where
  "init_repo run self launched repo_path =
     run_git_command run self launched (py ''git init'') repo_path"

definition git_status ::
  "subprocess_run \<Rightarrow> git_manager \<Rightarrow> (str \<times> str) list \<Rightarrow> str option \<Rightarrow> git_result" where
  "git_status run self launched repo_path =
     run_git_command run self launched (py ''git status'') repo_path"

text \<open>\<open>if files\<close> holds for a list that is not empty.\<close>

definition git_add ::
  "subprocess_run \<Rightarrow> git_manager \<Rightarrow> (str \<times> str) list \<Rightarrow> str list option \<Rightarrow> str option
     \<Rightarrow> git_result" where
  "git_add run self launched fs repo_path =
     (if fs \<noteq> None \<and> fs \<noteq> Some [] then
        (let files_str = join (py '' '') (the fs) in
         run_git_command run self launched (py ''git add '' @ files_str) repo_path)
      else run_git_command run self launched (py ''git add .'') repo_path)"

definition git_commit ::
  "subprocess_run \<Rightarrow> git_manager \<Rightarrow> (str \<times> str) list \<Rightarrow> str \<Rightarrow> str option \<Rightarrow> git_result" where
  "git_commit run self launched message repo_path =
     run_git_command run self launched (py ''git commit -m '' @ [34] @ message @ [34]) repo_path"

definition git_push ::
  "subprocess_run \<Rightarrow> git_manager \<Rightarrow> (str \<times> str) list \<Rightarrow> str \<Rightarrow> str \<Rightarrow> str option
     \<Rightarrow> git_result" where
  "git_push run self launched remote branch repo_path =
     run_git_command run self launched (py ''git push '' @ remote @ py '' '' @ branch) repo_path"

definition git_pull ::
  "subprocess_run \<Rightarrow> git_manager \<Rightarrow> (str \<times> str) list \<Rightarrow> str \<Rightarrow> str \<Rightarrow> str option
     \<Rightarrow> git_result" where
  "git_pull run self launched remote branch repo_path =
     run_git_command run self launched (py ''git pull '' @ remote @ py '' '' @ branch) repo_path"

definition git_branch ::
  "subprocess_run \<Rightarrow> git_manager \<Rightarrow> (str \<times> str) list \<Rightarrow> str option \<Rightarrow> git_result" where
  "git_branch run self launched repo_path =
     run_git_command run self launched (py ''git branch'') repo_path"

definition git_checkout ::
  "subprocess_run \<Rightarrow> git_manager \<Rightarrow> (str \<times> str) list \<Rightarrow> str \<Rightarrow> str option \<Rightarrow> git_result" where
  "git_checkout run self launched branch repo_path =
     run_git_command run self launched (py ''git checkout '' @ branch) repo_path"

definition git_merge ::
  "subprocess_run \<Rightarrow> git_manager \<Rightarrow> (str \<times> str) list \<Rightarrow> str \<Rightarrow> str option \<Rightarrow> git_result" where
  "git_merge run self launched branch repo_path =
     run_git_command run self launched (py ''git merge '' @ branch) repo_path"

section \<open>Properties of ui/statistics.py\<close>

lemma startswith_hash_nonempty: "startswith s (py ''#'') \<Longrightarrow> s \<noteq> []"
  by (auto simp: startswith_def py_def)

lemma line_classes_partition:
  "length (filter is_empty_line ls) + length (filter is_comment_line ls)
     + length (filter is_code_line ls) = length ls"
proof (induction ls)
  case Nil
  show ?case by simp
next
  case (Cons l ls)
  have "is_empty_line l \<and> \<not> is_comment_line l \<and> \<not> is_code_line l
      \<or> \<not> is_empty_line l \<and> is_comment_line l \<and> \<not> is_code_line l
      \<or> \<not> is_empty_line l \<and> \<not> is_comment_line l \<and> is_code_line l"
    using startswith_hash_nonempty [of "strip l"]
    by (auto simp: is_empty_line_def is_comment_line_def is_code_line_def)
  with Cons.IH show ?case by auto
qed

lemma split_acc_length: "length (split_acc sep cur s) = Suc (length (filter (\<lambda>c. c = sep) s))"
  by (induction s arbitrary: cur) auto

text \<open>
  C9. For every file content, the line counts that \<open>analyze_current_file\<close> reports
  partition the lines: Empty Lines + Comment Lines + Code Lines = Total Lines, where
  Total Lines is the number of segments of the content between newlines (one more
  than the number of newline characters), an empty line is one whose stripped text is
  empty, a comment line one whose stripped text starts with \<open>#\<close>, and a code line any
  other line.
\<close>

theorem analyze_current_file_partition:
  assumes "f \<noteq> []" and "read_file f = Inr content"
  shows "\<exists>st. analyze_current_file read_file (Some f) = Statistics st
    \<and> empty_lines st + comment_lines st + code_lines st = total_lines st
    \<and> total_lines st = length (split content 10)
    \<and> total_lines st = Suc (length (filter (\<lambda>c. c = 10) content))
    \<and> empty_lines st = length (filter (\<lambda>l. strip l = []) (split content 10))
    \<and> comment_lines st
         = length (filter (\<lambda>l. startswith (strip l) (py ''#'')) (split content 10))
    \<and> code_lines st
         = length (filter (\<lambda>l. strip l \<noteq> [] \<and> \<not> startswith (strip l) (py ''#''))
             (split content 10))"
proof -
  let ?st = "file_statistics content"
  have run: "analyze_current_file read_file (Some f) = Statistics ?st"
    using assms by (simp add: analyze_current_file_def)
  have part: "empty_lines ?st + comment_lines ?st + code_lines ?st = total_lines ?st"
    by (simp add: file_statistics_def Let_def line_classes_partition)
  have total: "total_lines ?st = length (split content 10)"
    by (simp add: file_statistics_def Let_def)
  have newlines: "total_lines ?st = Suc (length (filter (\<lambda>c. c = 10) content))"
    by (simp add: file_statistics_def Let_def split_def split_acc_length)
  have empty: "empty_lines ?st = length (filter (\<lambda>l. strip l = []) (split content 10))"
    by (simp add: file_statistics_def Let_def is_empty_line_def [abs_def])
  have comment: "comment_lines ?st
      = length (filter (\<lambda>l. startswith (strip l) (py ''#'')) (split content 10))"
    by (simp add: file_statistics_def Let_def is_comment_line_def [abs_def])
  have code: "code_lines ?st
      = length (filter (\<lambda>l. strip l \<noteq> [] \<and> \<not> startswith (strip l) (py ''#''))
          (split content 10))"
    by (simp add: file_statistics_def Let_def is_code_line_def [abs_def])
  from run part total newlines empty comment code show ?thesis by blast
qed

text \<open>
  The content \<open>x\<close>, newline, \<open> #\<close>, newline, two spaces: three lines, one of each
  class.
\<close>

theorem analyze_current_file_partition_witness:
  "\<exists>st. analyze_current_file (\<lambda>_. Inr [120, 10, 32, 35, 10, 32, 32]) (Some (py ''a.py''))
          = Statistics st
    \<and> empty_lines st + comment_lines st + code_lines st = total_lines st
    \<and> total_lines st = 3"
proof -
  have name: "py ''a.py'' \<noteq> []"
    by (simp add: py_def)
  have read: "(\<lambda>_. Inr [120, 10, 32, 35, 10, 32, 32]) (py ''a.py'')
      = (Inr [120, 10, 32, 35, 10, 32, 32] :: py_error + str)"
    by simp
  obtain st where st: "analyze_current_file (\<lambda>_. Inr [120, 10, 32, 35, 10, 32, 32])
        (Some (py ''a.py'')) = Statistics st"
      "empty_lines st + comment_lines st + code_lines st = total_lines st"
      "total_lines st = Suc (length (filter (\<lambda>c. c = 10) [120, 10, 32, 35, 10, 32, 32 :: nat]))"
    using analyze_current_file_partition [OF name read] by blast
  from st(3) have "total_lines st = 3" by simp
  with st(1,2) show ?thesis by blast
qed


section \<open>Properties of ui/debugger.py\<close>

text \<open>
  C1. In every state of the four flags in which at least one is set, \<open>readline\<close>
  returns at once the command of the first flag set, in the order \<open>should_continue\<close>
  (\<open>c\<close>), \<open>should_step\<close> (\<open>n\<close>), \<open>should_step_in\<close> (\<open>s\<close>), \<open>should_step_out\<close> (\<open>r\<close>), and
  clears that flag and nothing else: the other flags, the emitted texts and the
  buffer are as before.
\<close>

theorem readline_returns_command:
  assumes "should_continue (debugger_thread self) \<or> should_step (debugger_thread self)
     \<or> should_step_in (debugger_thread self) \<or> should_step_out (debugger_thread self)"
  shows "(should_continue (debugger_thread self) \<longrightarrow>
           readline ui k self = Some (Inr (py ''c'',
             self\<lparr>debugger_thread := (debugger_thread self)\<lparr>should_continue := False\<rparr>\<rparr>)))
       \<and> (\<not> should_continue (debugger_thread self) \<and> should_step (debugger_thread self) \<longrightarrow>
           readline ui k self = Some (Inr (py ''n'',
             self\<lparr>debugger_thread := (debugger_thread self)\<lparr>should_step := False\<rparr>\<rparr>)))
       \<and> (\<not> should_continue (debugger_thread self) \<and> \<not> should_step (debugger_thread self)
            \<and> should_step_in (debugger_thread self) \<longrightarrow>
           readline ui k self = Some (Inr (py ''s'',
             self\<lparr>debugger_thread := (debugger_thread self)\<lparr>should_step_in := False\<rparr>\<rparr>)))
       \<and> (\<not> should_continue (debugger_thread self) \<and> \<not> should_step (debugger_thread self)
            \<and> \<not> should_step_in (debugger_thread self) \<longrightarrow>
           readline ui k self = Some (Inr (py ''r'',
             self\<lparr>debugger_thread := (debugger_thread self)\<lparr>should_step_out := False\<rparr>\<rparr>)))"
proof (intro conjI impI)
  assume "should_continue (debugger_thread self)"
  then show "readline ui k self = Some (Inr (py ''c'',
      self\<lparr>debugger_thread := (debugger_thread self)\<lparr>should_continue := False\<rparr>\<rparr>))"
    by (subst readline.simps) (simp add: Let_def)
next
  assume "\<not> should_continue (debugger_thread self) \<and> should_step (debugger_thread self)"
  then show "readline ui k self = Some (Inr (py ''n'',
      self\<lparr>debugger_thread := (debugger_thread self)\<lparr>should_step := False\<rparr>\<rparr>))"
    by (subst readline.simps) (simp add: Let_def)
next
  assume "\<not> should_continue (debugger_thread self) \<and> \<not> should_step (debugger_thread self)
            \<and> should_step_in (debugger_thread self)"
  then show "readline ui k self = Some (Inr (py ''s'',
      self\<lparr>debugger_thread := (debugger_thread self)\<lparr>should_step_in := False\<rparr>\<rparr>))"
    by (subst readline.simps) (simp add: Let_def)
next
  assume "\<not> should_continue (debugger_thread self) \<and> \<not> should_step (debugger_thread self)
            \<and> \<not> should_step_in (debugger_thread self)"
  with assms have "\<not> should_continue (debugger_thread self) \<and> \<not> should_step (debugger_thread self)
            \<and> \<not> should_step_in (debugger_thread self) \<and> should_step_out (debugger_thread self)"
    by blast
  then show "readline ui k self = Some (Inr (py ''r'',
      self\<lparr>debugger_thread := (debugger_thread self)\<lparr>should_step_out := False\<rparr>\<rparr>))"
    by (subst readline.simps) (simp add: Let_def)
qed

text \<open>Step over and step out both clicked: \<open>n\<close> is returned, step out stays set.\<close>

theorem readline_returns_command_witness:
  "readline (\<lambda>k t. t) 0 (CustomDebugger_init (step (step_out DebuggerThread_init)))
   = Some (Inr ([110], CustomDebugger_init (step_out DebuggerThread_init)))"
proof -
  let ?self = "CustomDebugger_init (step (step_out DebuggerThread_init))"
  have flags: "\<not> should_continue (debugger_thread ?self) \<and> should_step (debugger_thread ?self)"
    by (simp add: CustomDebugger_init_def step_def step_out_def DebuggerThread_init_def)
  then have some: "should_continue (debugger_thread ?self) \<or> should_step (debugger_thread ?self)
     \<or> should_step_in (debugger_thread ?self) \<or> should_step_out (debugger_thread ?self)"
    by blast
  from readline_returns_command [OF some, of "\<lambda>k t. t" 0] flags
  have "readline (\<lambda>k t. t) 0 ?self = Some (Inr (py ''n'',
      ?self\<lparr>debugger_thread := (debugger_thread ?self)\<lparr>should_step := False\<rparr>\<rparr>))"
    by blast
  then show ?thesis
    by (simp add: CustomDebugger_init_def step_def step_out_def DebuggerThread_init_def py_def)
qed

text \<open>
  C3. With all four flags false, \<open>readline\<close> returns no command, but it does not wait
  for one either: the first \<open>self.msleep(100)\<close> raises \<open>AttributeError\<close>, whatever the
  UI thread does later.
\<close>

theorem readline_idle_raises:
  "readline ui k (self\<lparr>debugger_thread := (debugger_thread self)
       \<lparr>should_continue := False, should_step := False, should_step_in := False,
        should_step_out := False\<rparr>\<rparr>)
   = Some (Inl (AttributeError ([39] @ py ''CustomDebugger'' @ [39]
        @ py '' object has no attribute '' @ [39] @ py ''msleep'' @ [39])))"
  by (subst readline.simps) (simp add: Let_def msleep_def)

lemma write_step:
  "write_text self text =
     (if endswith text [10] then
        self\<lparr>debugger_thread := (debugger_thread self)
                \<lparr>output_signal := output_signal (debugger_thread self)
                    @ [concat (output_buffer self @ [text])]\<rparr>,
             output_buffer := []\<rparr>
      else self\<lparr>output_buffer := output_buffer self @ [text]\<rparr>)"
  by (simp add: write_text_def Let_def)

lemma write_all_snoc: "write_all self (chunks @ [text]) = write_text (write_all self chunks) text"
  by (induction chunks arbitrary: self) simp_all

lemma writes_text_kept:
  "concat (output_signal (debugger_thread (write_all self chunks)))
     @ concat (output_buffer (write_all self chunks))
   = concat (output_signal (debugger_thread self)) @ concat (output_buffer self) @ concat chunks"
proof (induction chunks rule: rev_induct)
  case Nil
  show ?case by simp
next
  case (snoc c chunks)
  then show ?case by (cases "endswith c [10]") (simp_all add: write_all_snoc write_step)
qed

lemma writes_count:
  "length (output_signal (debugger_thread (write_all self chunks)))
   = length (output_signal (debugger_thread self))
       + length (filter (\<lambda>c. endswith c [10]) chunks)"
proof (induction chunks rule: rev_induct)
  case Nil
  show ?case by simp
next
  case (snoc c chunks)
  then show ?case by (cases "endswith c [10]") (simp_all add: write_all_snoc write_step)
qed

lemma writes_old:
  "take (length (output_signal (debugger_thread self)))
      (output_signal (debugger_thread (write_all self chunks)))
   = output_signal (debugger_thread self)"
proof (induction chunks rule: rev_induct)
  case Nil
  show ?case by simp
next
  case (snoc c chunks)
  then show ?case
    by (cases "endswith c [10]") (simp_all add: write_all_snoc write_step writes_count)
qed

lemma endswith_concat_snoc: "endswith c [10] \<Longrightarrow> endswith (concat (xs @ [c])) [10]"
  by (auto simp: endswith_def)

lemma writes_new:
  "\<forall>e \<in> set (drop (length (output_signal (debugger_thread self)))
        (output_signal (debugger_thread (write_all self chunks)))). endswith e [10]"
proof (induction chunks rule: rev_induct)
  case Nil
  show ?case by simp
next
  case (snoc c chunks)
  show ?case
  proof (cases "endswith c [10]")
    case True
    have len: "length (output_signal (debugger_thread self))
        \<le> length (output_signal (debugger_thread (write_all self chunks)))"
      by (simp add: writes_count)
    have last: "endswith (concat (output_buffer (write_all self chunks) @ [c])) [10]"
      using True by (rule endswith_concat_snoc)
    from True len last snoc.IH show ?thesis
      by (simp add: write_all_snoc write_step)
  next
    case False
    with snoc.IH show ?thesis
      by (simp add: write_all_snoc write_step)
  qed
qed

lemma writes_buffer:
  "output_buffer (write_all self chunks)
   = (if \<exists>c \<in> set chunks. endswith c [10] then [] else output_buffer self)
       @ rev (takeWhile (\<lambda>c. \<not> endswith c [10]) (rev chunks))"
proof (induction chunks rule: rev_induct)
  case Nil
  show ?case by simp
next
  case (snoc c chunks)
  then show ?case
    by (cases "endswith c [10]") (simp_all add: write_all_snoc write_step)
qed

text \<open>
  C2, as the claim states it, fails: a chunk with a newline inside that does not end
  with one is buffered and nothing is emitted, and when the next chunk ends the
  line, two lines are emitted as one text.
\<close>

theorem write_newline_inside_chunk_counterexample:
  "10 \<in> set [97, 10, 98 :: nat]
   \<and> output_signal (debugger_thread
        (write_text (CustomDebugger_init DebuggerThread_init) [97, 10, 98])) = []
   \<and> output_buffer (write_text (CustomDebugger_init DebuggerThread_init) [97, 10, 98])
        = [[97, 10, 98]]
   \<and> output_signal (debugger_thread
        (write_all (CustomDebugger_init DebuggerThread_init) [[97, 10, 98], [10]]))
        = [[97, 10, 98, 10]]"
proof -
  have ends: "\<not> endswith [97, 10, 98] [10]" "endswith [10] [10]"
    by (simp_all add: endswith_def)
  show ?thesis
    by (simp add: write_text_def CustomDebugger_init_def DebuggerThread_init_def ends Let_def)
qed

text \<open>
  C2, amended. A call of \<open>write\<close> whose chunk ends with a newline emits, as one text,
  the concatenation of the chunks buffered since the last emission and of this one,
  and empties the buffer; a call with any other chunk, also one with a newline
  inside, only appends the chunk to the buffer. So over every sequence of calls: no
  text is lost or reordered; as many texts are emitted as chunks end with a newline;
  the texts emitted earlier stay; every new text ends with a newline (it may hold
  several lines); and the buffer holds the chunks written after the last chunk that
  ended with a newline.
\<close>

theorem write_forwards_at_chunk_ending_newline:
  "(endswith text [10] \<longrightarrow>
      write_text self text =
        self\<lparr>debugger_thread := (debugger_thread self)
                \<lparr>output_signal := output_signal (debugger_thread self)
                    @ [concat (output_buffer self @ [text])]\<rparr>,
             output_buffer := []\<rparr>)
   \<and> (\<not> endswith text [10] \<longrightarrow>
      write_text self text = self\<lparr>output_buffer := output_buffer self @ [text]\<rparr>)
   \<and> concat (output_signal (debugger_thread (write_all self chunks)))
        @ concat (output_buffer (write_all self chunks))
      = concat (output_signal (debugger_thread self)) @ concat (output_buffer self)
          @ concat chunks
   \<and> length (output_signal (debugger_thread (write_all self chunks)))
      = length (output_signal (debugger_thread self))
          + length (filter (\<lambda>c. endswith c [10]) chunks)
   \<and> take (length (output_signal (debugger_thread self)))
        (output_signal (debugger_thread (write_all self chunks)))
      = output_signal (debugger_thread self)
   \<and> (\<forall>e \<in> set (drop (length (output_signal (debugger_thread self)))
          (output_signal (debugger_thread (write_all self chunks)))). endswith e [10])
   \<and> output_buffer (write_all self chunks)
      = (if \<exists>c \<in> set chunks. endswith c [10] then [] else output_buffer self)
          @ rev (takeWhile (\<lambda>c. \<not> endswith c [10]) (rev chunks))"
proof -
  have one: "write_text self text =
     (if endswith text [10] then
        self\<lparr>debugger_thread := (debugger_thread self)
                \<lparr>output_signal := output_signal (debugger_thread self)
                    @ [concat (output_buffer self @ [text])]\<rparr>,
             output_buffer := []\<rparr>
      else self\<lparr>output_buffer := output_buffer self @ [text]\<rparr>)"
    by (rule write_step)
  from one have yes: "endswith text [10] \<longrightarrow>
      write_text self text =
        self\<lparr>debugger_thread := (debugger_thread self)
                \<lparr>output_signal := output_signal (debugger_thread self)
                    @ [concat (output_buffer self @ [text])]\<rparr>,
             output_buffer := []\<rparr>"
    by simp
  from one have no: "\<not> endswith text [10] \<longrightarrow>
      write_text self text = self\<lparr>output_buffer := output_buffer self @ [text]\<rparr>"
    by simp
  from yes no writes_text_kept [of self chunks] writes_count [of self chunks]
    writes_old [of self chunks] writes_new [of self chunks] writes_buffer [of self chunks]
  show ?thesis by blast
qed

text \<open>
  The chunks \<open>a\<close>, \<open>b\<close> newline, \<open>c\<close> written to a new debugger: \<open>ab\<close> newline is
  emitted and \<open>c\<close> stays in the buffer.
\<close>

theorem write_forwards_at_chunk_ending_newline_witness:
  "endswith [98, 10] [10]
   \<and> write_text (CustomDebugger_init DebuggerThread_init) [98, 10]
      = \<lparr>debugger_thread = DebuggerThread_init\<lparr>output_signal := [[98, 10]]\<rparr>,
          output_buffer = []\<rparr>
   \<and> output_buffer (write_all (CustomDebugger_init DebuggerThread_init) [[97], [98, 10], [99]])
      = [[99]]
   \<and> length (output_signal (debugger_thread
        (write_all (CustomDebugger_init DebuggerThread_init) [[97], [98, 10], [99]]))) = 1"
proof -
  have ends: "endswith [98, 10] [10]" "\<not> endswith [97] [10]" "\<not> endswith [99] [10]"
    by (simp_all add: endswith_def)
  from write_forwards_at_chunk_ending_newline
    [of "[98, 10]" "CustomDebugger_init DebuggerThread_init" "[[97], [98, 10], [99]]"]
  show ?thesis
    using ends by (simp add: CustomDebugger_init_def DebuggerThread_init_def)
qed


section \<open>Properties of editor/editor.py\<close>

lemma set_children_visible_run:
  "next_block \<le> length doc \<Longrightarrow>
   set_children_visible v level next_block doc
   = take next_block doc
     @ map (\<lambda>c. c\<lparr>visible := v\<rparr>)
         (takeWhile (\<lambda>c. get_indent_level c > level) (drop next_block doc))
     @ dropWhile (\<lambda>c. get_indent_level c > level) (drop next_block doc)"
proof (induction v level next_block doc rule: set_children_visible.induct)
  case (1 v level next_block doc)
  let ?P = "\<lambda>c. get_indent_level c > level"
  show ?case
  proof (cases "isValid doc next_block \<and> get_indent_level (doc ! next_block) > level")
    case True
    then have inside: "next_block < length doc" and deeper: "?P (doc ! next_block)"
      by (simp_all add: isValid_def)
    let ?doc1 = "doc[next_block := (doc ! next_block)\<lparr>visible := v\<rparr>]"
    have IH: "set_children_visible v level (Suc next_block) ?doc1
        = take (Suc next_block) ?doc1
          @ map (\<lambda>c. c\<lparr>visible := v\<rparr>) (takeWhile ?P (drop (Suc next_block) ?doc1))
          @ dropWhile ?P (drop (Suc next_block) ?doc1)"
      using "1.IH" True inside by simp
    have taken: "take (Suc next_block) ?doc1
        = take next_block doc @ [(doc ! next_block)\<lparr>visible := v\<rparr>]"
      using inside by (simp add: take_Suc_conv_app_nth)
    have dropped: "drop (Suc next_block) ?doc1 = drop (Suc next_block) doc"
      by simp
    have unfolded: "drop next_block doc = doc ! next_block # drop (Suc next_block) doc"
      using inside by (simp add: Cons_nth_drop_Suc)
    have "set_children_visible v level next_block doc
        = set_children_visible v level (Suc next_block) ?doc1"
      using True by (subst set_children_visible.simps) simp
    with IH taken dropped unfolded deeper show ?thesis
      by simp
  next
    case False
    then have stop: "set_children_visible v level next_block doc = doc"
      by (subst set_children_visible.simps) auto
    show ?thesis
    proof (cases "next_block < length doc")
      case True
      with False have shallow: "\<not> ?P (doc ! next_block)"
        by (simp add: isValid_def)
      have unfolded: "drop next_block doc = doc ! next_block # drop (Suc next_block) doc"
        using True by (simp add: Cons_nth_drop_Suc)
      from shallow have "takeWhile ?P (drop next_block doc) = []"
        and "dropWhile ?P (drop next_block doc) = drop next_block doc"
        by (simp_all add: unfolded)
      with stop show ?thesis
        by simp
    next
      case False
      with "1.prems" stop show ?thesis by simp
    qed
  qed
qed

lemma indent_userState [simp]: "get_indent_level (c\<lparr>userState := s\<rparr>) = get_indent_level c"
  by (simp add: get_indent_level_def)

text \<open>
  C4. For every foldable block (one whose next block has a strictly greater
  indentation level, the number of leading whitespace characters of its text),
  \<open>toggle_fold\<close> on an expanded block (user state not 1) sets its user state to 1 and
  hides exactly the maximal run of blocks that follow it with a strictly greater
  indentation level; on a collapsed block (user state 1) it sets the user state to 0
  and makes exactly that run visible. Nothing else in the document changes, and the
  run is not empty.
\<close>

theorem toggle_fold_run:
  assumes "can_fold doc block"
  shows "toggle_fold doc block
    = take block doc
      @ [(doc ! block)\<lparr>userState := (if userState (doc ! block) = 1 then 0 else 1)\<rparr>]
      @ map (\<lambda>c. c\<lparr>visible := (userState (doc ! block) = 1)\<rparr>)
          (takeWhile (\<lambda>c. get_indent_level c > get_indent_level (doc ! block))
             (drop (Suc block) doc))
      @ dropWhile (\<lambda>c. get_indent_level c > get_indent_level (doc ! block))
          (drop (Suc block) doc)
    \<and> takeWhile (\<lambda>c. get_indent_level c > get_indent_level (doc ! block))
             (drop (Suc block) doc) \<noteq> []"
proof -
  from assms have valid: "block < length doc" and nxt: "Suc block < length doc"
    and deeper: "get_indent_level (doc ! Suc block) > get_indent_level (doc ! block)"
    by (simp_all add: can_fold_def isValid_def Let_def split: if_splits)
  have upd: "\<And>s. take (Suc block) (doc[block := (doc ! block)\<lparr>userState := s\<rparr>])
      = take block doc @ [(doc ! block)\<lparr>userState := s\<rparr>]"
    using valid by (simp add: take_Suc_conv_app_nth)
  have result: "toggle_fold doc block
    = take block doc
      @ [(doc ! block)\<lparr>userState := (if userState (doc ! block) = 1 then 0 else 1)\<rparr>]
      @ map (\<lambda>c. c\<lparr>visible := (userState (doc ! block) = 1)\<rparr>)
          (takeWhile (\<lambda>c. get_indent_level c > get_indent_level (doc ! block))
             (drop (Suc block) doc))
      @ dropWhile (\<lambda>c. get_indent_level c > get_indent_level (doc ! block))
          (drop (Suc block) doc)"
    using valid upd by (simp add: toggle_fold_def isValid_def Let_def set_children_visible_run)
  have "drop (Suc block) doc = doc ! Suc block # drop (Suc (Suc block)) doc"
    using nxt by (simp add: Cons_nth_drop_Suc)
  with deeper have "takeWhile (\<lambda>c. get_indent_level c > get_indent_level (doc ! block))
             (drop (Suc block) doc) \<noteq> []"
    by simp
  with result show ?thesis by blast
qed

text \<open>
  A header, two indented lines (the second one collapsed itself) and a line at the
  level of the header: collapsing the header hides the two indented lines.
\<close>

lemma indents:
  "get_indent_level \<lparr>block_text = py ''def f():'', userState = u, visible = w\<rparr> = 0"
  "get_indent_level \<lparr>block_text = py ''    a'', userState = u, visible = w\<rparr> = 4"
  "get_indent_level \<lparr>block_text = py ''c'', userState = u, visible = w\<rparr> = 0"
  by (simp_all add: get_indent_level_def lstrip_def isspace_def py_def Let_def)

theorem toggle_fold_run_witness:
  "can_fold
     [\<lparr>block_text = py ''def f():'', userState = -1, visible = True\<rparr>,
      \<lparr>block_text = py ''    a'', userState = -1, visible = True\<rparr>,
      \<lparr>block_text = py ''    a'', userState = 1, visible = True\<rparr>,
      \<lparr>block_text = py ''c'', userState = -1, visible = True\<rparr>] 0
   \<and> toggle_fold
     [\<lparr>block_text = py ''def f():'', userState = -1, visible = True\<rparr>,
      \<lparr>block_text = py ''    a'', userState = -1, visible = True\<rparr>,
      \<lparr>block_text = py ''    a'', userState = 1, visible = True\<rparr>,
      \<lparr>block_text = py ''c'', userState = -1, visible = True\<rparr>] 0
   = [\<lparr>block_text = py ''def f():'', userState = 1, visible = True\<rparr>,
      \<lparr>block_text = py ''    a'', userState = -1, visible = False\<rparr>,
      \<lparr>block_text = py ''    a'', userState = 1, visible = False\<rparr>,
      \<lparr>block_text = py ''c'', userState = -1, visible = True\<rparr>]"
proof -
  let ?doc = "[\<lparr>block_text = py ''def f():'', userState = -1, visible = True\<rparr>,
      \<lparr>block_text = py ''    a'', userState = -1, visible = True\<rparr>,
      \<lparr>block_text = py ''    a'', userState = 1, visible = True\<rparr>,
      \<lparr>block_text = py ''c'', userState = -1, visible = True\<rparr>]"
  have foldable: "can_fold ?doc 0"
    by (simp add: can_fold_def isValid_def Let_def indents)
  from toggle_fold_run [OF foldable] foldable show ?thesis
    by (simp add: indents)
qed


section \<open>Properties of ui/projectmanager.py and ui/snippets.py\<close>

lemma exec_dialog_accepted:
  "exec_dialog d actions = (Accepted, d', sh) \<Longrightarrow> name_edit d' \<noteq> [] \<and> path_edit d' \<noteq> []"
proof (induction d actions arbitrary: sh rule: exec_dialog.induct)
  case (6 self rest)
  show ?case
  proof (cases "accept self")
    case None
    with "6.prems" have "d' = self" by simp
    with None show ?thesis by (simp add: accept_def split: if_splits)
  next
    case (Some warning)
    with "6.prems" obtain sh' where "exec_dialog self rest = (Accepted, d', sh')"
      by (auto split: prod.splits)
    with "6.IH" Some show ?thesis by blast
  qed
qed simp_all

lemma joins:
  "os_path_join (py ''/home/p'') (py ''/x'' @ py ''.webe.json'') = py ''/x.webe.json''"
  "os_path_join (py ''/home/p'') (py ''x'' @ py ''.webe.json'') = py ''/home/p/x.webe.json''"
  by (simp_all add: os_path_join_def startswith_def endswith_def py_def)









lemma default_snippets_named: "\<forall>s \<in> set default_snippets. snippet_name s \<noteq> []"
  by (simp add: default_snippets_def default_snippet_for_def default_snippet_while_def
      default_snippet_if_def default_snippet_def_def default_snippet_class_def
      default_snippet_try_def default_snippet_import_def default_snippet_main_def py_def)

lemma create_project_named:
  "create_project sys actions st = (Inr (Some p), st') \<Longrightarrow>
   name p \<noteq> [] \<and> path p \<noteq> [] \<and> files p = []"
proof -
  assume created: "create_project sys actions st = (Inr (Some p), st')"
  obtain self w where st: "st = (self, w)" by (cases st)
  obtain code dialog shown where dlg: "exec_dialog new_dialog actions = (code, dialog, shown)"
    by (cases "exec_dialog new_dialog actions")
  from created st dlg have code: "code = Accepted"
    by (auto simp: create_project_def split: if_splits)
  with dlg have nonempty: "name_edit dialog \<noteq> []" "path_edit dialog \<noteq> []"
    using exec_dialog_accepted by blast+
  from created st dlg code
  have "p = \<lparr>name = name_edit dialog, path = path_edit dialog, files = []\<rparr>"
    by (auto simp: create_project_def Let_def split: if_splits prod.splits option.splits)
  with nonempty show ?thesis by simp
qed

lemma add_snippet_snippets:
  "snippets (fst (add_snippet sys here (self, w) n p b))
   = snippets self @ [\<lparr>snippet_name = n, prefix = p, body = b\<rparr>]"
  by (simp add: add_snippet_def Let_def)

lemma update_snippet_snippets:
  "snippets (fst (update_snippet sys here (self, w) index n p b))
   = (if 0 \<le> index \<and> index < int (length (snippets self))
      then (snippets self)[nat index := \<lparr>snippet_name = n, prefix = p, body = b\<rparr>]
      else snippets self)"
  by (simp add: update_snippet_def Let_def)

lemma dialog_add_named:
  assumes "\<forall>s \<in> set (snippets self). snippet_name s \<noteq> []"
  shows "\<forall>s \<in> set (snippets (fst (snd (SnippetDialog_add_snippet sys here dlg (self, w))))).
           snippet_name s \<noteq> []"
  using assms by (auto simp: SnippetDialog_add_snippet_def Let_def add_snippet_snippets)

lemma dialog_update_named:
  assumes "\<forall>s \<in> set (snippets self). snippet_name s \<noteq> []"
  shows "\<forall>s \<in> set (snippets (fst (snd (SnippetDialog_update_snippet sys here dlg (self, w))))).
           snippet_name s \<noteq> []"
proof (cases "current_row dlg")
  case None
  with assms show ?thesis by (simp add: SnippetDialog_update_snippet_def)
next
  case (Some index)
  show ?thesis
  proof (cases "snippet_name_edit dlg = [] \<or> prefix_edit dlg = [] \<or> body_edit dlg = []")
    case True
    with Some assms show ?thesis by (auto simp: SnippetDialog_update_snippet_def Let_def)
  next
    case False
    have "\<And>s. s \<in> set ((snippets self)[index := \<lparr>snippet_name = snippet_name_edit dlg,
        prefix = prefix_edit dlg, body = body_edit dlg\<rparr>]) \<Longrightarrow> snippet_name s \<noteq> []"
      using assms False by (auto dest!: set_update_subset_insert [THEN subsetD])
    with Some False assms show ?thesis
      by (auto simp: SnippetDialog_update_snippet_def Let_def update_snippet_snippets)
  qed
qed

text \<open>
  C5, amended. The name is checked in the dialogs, not in the managers. A project is
  created only with a name that is not empty. From a snippet store in which every
  name is non-empty, the handlers \<open>SnippetDialog.add_snippet\<close> and
  \<open>SnippetDialog.update_snippet\<close> lead to such a store again, and the default store is
  one.
\<close>

theorem name_nonempty_kept_by_dialogs:
  "(create_project sys actions st = (Inr (Some p), st') \<longrightarrow> name p \<noteq> [])
   \<and> ((\<forall>s \<in> set (snippets self). snippet_name s \<noteq> []) \<longrightarrow>
        (\<forall>s \<in> set (snippets (fst (snd (SnippetDialog_add_snippet sys' here dlg (self, w))))).
           snippet_name s \<noteq> [])
      \<and> (\<forall>s \<in> set (snippets (fst (snd (SnippetDialog_update_snippet sys' here dlg (self, w))))).
           snippet_name s \<noteq> []))
   \<and> (\<forall>s \<in> set default_snippets. snippet_name s \<noteq> [])"
  using create_project_named [of sys actions st p st'] dialog_add_named [of self sys' here dlg w]
    dialog_update_named [of self sys' here dlg w] default_snippets_named
  by blast

text \<open>
  C5, as the claim states it, fails: \<open>SnippetManager.add_snippet\<close> and
  \<open>SnippetManager.update_snippet\<close> store an empty name when they are given one.
\<close>

theorem add_snippet_empty_name_counterexample:
  "snippets (fst (add_snippet
      recording
      (py ''/app/ui'') (\<lparr>snippets = []\<rparr>, []) [] (py ''p'') (py ''b'')))
   = [\<lparr>snippet_name = [], prefix = py ''p'', body = py ''b''\<rparr>]
   \<and> snippets (fst (update_snippet
      recording
      (py ''/app/ui'')
      (\<lparr>snippets = [\<lparr>snippet_name = py ''a'', prefix = py ''p'', body = py ''b''\<rparr>]\<rparr>, [])
      0 [] (py ''p'') (py ''b'')))
   = [\<lparr>snippet_name = [], prefix = py ''p'', body = py ''b''\<rparr>]"
  by (simp add: add_snippet_snippets update_snippet_snippets)

lemma create_project_example:
  "create_project
     recording
     [TypeName (py ''x''), TypePath (py ''/home/p''), ClickCreate]
     (\<lparr>current_project = None\<rparr>, [])
   = (Inr (Some \<lparr>name = py ''x'', path = py ''/home/p'', files = []\<rparr>),
      \<lparr>current_project = Some \<lparr>name = py ''x'', path = py ''/home/p'', files = []\<rparr>\<rparr>,
      [(py ''/home/p'', None),
       (py ''/home/p/x.webe.json'',
        Some \<lparr>name = py ''x'', path = py ''/home/p'', files = []\<rparr>)])"
proof -
  have accepted: "exec_dialog new_dialog
        [TypeName (py ''x''), TypePath (py ''/home/p''), ClickCreate]
      = (Accepted, \<lparr>name_edit = py ''x'', path_edit = py ''/home/p''\<rparr>, [])"
    by (simp add: new_dialog_def accept_def py_def)
  show ?thesis
    by (simp add: create_project_def accepted recording_def joins Let_def del: exec_dialog.simps)
qed

theorem name_nonempty_kept_by_dialogs_witness:
  "name \<lparr>name = py ''x'', path = py ''/home/p'', files = []\<rparr> \<noteq> []
   \<and> snippet_name (snippets (fst (snd (SnippetDialog_add_snippet
        recording
        (py ''/app/ui'')
        \<lparr>snippet_name_edit = py ''n'', prefix_edit = py ''p'', body_edit = py ''b'',
         current_row = Some 0\<rparr>
        (\<lparr>snippets = [\<lparr>snippet_name = py ''a'', prefix = py ''p'', body = py ''b''\<rparr>]\<rparr>,
         [])))) ! 1) \<noteq> []
   \<and> snippet_name (snippets (fst (snd (SnippetDialog_update_snippet
        recording
        (py ''/app/ui'')
        \<lparr>snippet_name_edit = py ''n'', prefix_edit = py ''p'', body_edit = py ''b'',
         current_row = Some 0\<rparr>
        (\<lparr>snippets = [\<lparr>snippet_name = py ''a'', prefix = py ''p'', body = py ''b''\<rparr>]\<rparr>,
         [])))) ! 0) \<noteq> []"
proof -
  let ?sys = "recording :: ((str \<times> project option) list, project) system"
  let ?sys' = "recording :: ((str \<times> snippet list option) list, snippet list) system"
  let ?dlg = "\<lparr>snippet_name_edit = py ''n'', prefix_edit = py ''p'', body_edit = py ''b'',
         current_row = Some 0\<rparr>"
  let ?self = "\<lparr>snippets = [\<lparr>snippet_name = py ''a'', prefix = py ''p'', body = py ''b''\<rparr>]\<rparr>"
  let ?w = "[] :: (str \<times> snippet list option) list"
  have filled: "py ''n'' \<noteq> []" "py ''p'' \<noteq> []" "py ''b'' \<noteq> []" "py ''a'' \<noteq> []"
    by (simp_all add: py_def)
  have store: "\<forall>s \<in> set (snippets ?self). snippet_name s \<noteq> []"
    by (simp add: filled)
  have added: "snippets (fst (snd (SnippetDialog_add_snippet ?sys' (py ''/app/ui'') ?dlg
        (?self, ?w))))
      = [\<lparr>snippet_name = py ''a'', prefix = py ''p'', body = py ''b''\<rparr>,
         \<lparr>snippet_name = py ''n'', prefix = py ''p'', body = py ''b''\<rparr>]"
    by (simp add: SnippetDialog_add_snippet_def Let_def filled add_snippet_snippets)
  have updated: "snippets (fst (snd (SnippetDialog_update_snippet ?sys' (py ''/app/ui'') ?dlg
        (?self, ?w))))
      = [\<lparr>snippet_name = py ''n'', prefix = py ''p'', body = py ''b''\<rparr>]"
    by (simp add: SnippetDialog_update_snippet_def Let_def filled update_snippet_snippets)
  from name_nonempty_kept_by_dialogs
    [of ?sys "[TypeName (py ''x''), TypePath (py ''/home/p''), ClickCreate]"
        "(\<lparr>current_project = None\<rparr>, [])"
        "\<lparr>name = py ''x'', path = py ''/home/p'', files = []\<rparr>" _ ?self ?sys'
        "py ''/app/ui''" ?dlg ?w]
    create_project_example store
  have "name \<lparr>name = py ''x'', path = py ''/home/p'', files = []\<rparr> \<noteq> []"
    and "\<forall>s \<in> set (snippets (fst (snd (SnippetDialog_add_snippet ?sys' (py ''/app/ui'') ?dlg
            (?self, ?w))))). snippet_name s \<noteq> []"
    and "\<forall>s \<in> set (snippets (fst (snd (SnippetDialog_update_snippet ?sys' (py ''/app/ui'') ?dlg
            (?self, ?w))))). snippet_name s \<noteq> []"
    by blast+
  then show ?thesis
    unfolding added updated by simp
qed

text \<open>
  C8. When a file was chosen, \<open>open_project\<close> on any exception from opening, reading
  or parsing it shows a warning with the text of the exception, returns \<open>None\<close> and
  leaves the current project as it was; on success it makes the parsed value the
  current project and returns it. When the file dialog was cancelled it returns
  \<open>None\<close> and shows nothing. The file system is never changed.
\<close>

theorem open_project_guard:
  "(file_path \<noteq> [] \<and> json_load_from w file_path = Inl e \<longrightarrow>
      open_project json_load_from file_path (self, w)
      = ((None, [Warning (py ''Error'') (py ''Failed to open project: '' @ str_of_error e)]),
         self, w))
   \<and> (file_path \<noteq> [] \<and> json_load_from w file_path = Inr project_data \<longrightarrow>
      open_project json_load_from file_path (self, w)
      = ((Some project_data, []), self\<lparr>current_project := Some project_data\<rparr>, w))
   \<and> (file_path = [] \<longrightarrow> open_project json_load_from file_path (self, w) = ((None, []), self, w))"
  by (simp add: open_project_def)


text \<open>
  A project file that holds only an opening brace, with the text that \<open>json.load\<close>
  gives for it, and one that holds a project.
\<close>

theorem open_project_guard_witness:
  "open_project
     (\<lambda>w p. Inl (JSONDecodeError
        (py ''Expecting property name enclosed in double quotes: line 1 column 2 (char 1)'')))
     (py ''/p/a.webe.json'')
     (\<lparr>current_project = Some \<lparr>name = py ''x'', path = py ''/home/p'', files = []\<rparr>\<rparr>, ())
   = ((None, [Warning (py ''Error'') (py ''Failed to open project: '' @
        py ''Expecting property name enclosed in double quotes: line 1 column 2 (char 1)'')]),
      \<lparr>current_project = Some \<lparr>name = py ''x'', path = py ''/home/p'', files = []\<rparr>\<rparr>, ())
   \<and> open_project
     (\<lambda>w p. Inr \<lparr>name = py ''x'', path = py ''/home/p'', files = []\<rparr>)
     (py ''/p/a.webe.json'') (\<lparr>current_project = None\<rparr>, ())
   = ((Some \<lparr>name = py ''x'', path = py ''/home/p'', files = []\<rparr>, []),
      \<lparr>current_project = Some \<lparr>name = py ''x'', path = py ''/home/p'', files = []\<rparr>\<rparr>, ())"
proof -
  let ?f = "py ''/p/a.webe.json''"
  let ?p = "\<lparr>name = py ''x'', path = py ''/home/p'', files = []\<rparr>"
  let ?e = "JSONDecodeError
        (py ''Expecting property name enclosed in double quotes: line 1 column 2 (char 1)'')"
  let ?bad = "(\<lambda>w p. Inl (JSONDecodeError
        (py ''Expecting property name enclosed in double quotes: line 1 column 2 (char 1)'')))
    :: unit \<Rightarrow> str \<Rightarrow> py_error + project"
  let ?good = "(\<lambda>w p. Inr \<lparr>name = py ''x'', path = py ''/home/p'', files = []\<rparr>)
    :: unit \<Rightarrow> str \<Rightarrow> py_error + project"
  have chosen: "?f \<noteq> []"
    by (simp add: py_def)
  have fails: "?bad () ?f = Inl ?e"
    by simp
  have loads: "?good () ?f = Inr ?p"
    by simp
  from open_project_guard [of ?f ?bad "()" ?e "\<lparr>current_project = Some ?p\<rparr>"] chosen fails
  have first: "open_project ?bad ?f (\<lparr>current_project = Some ?p\<rparr>, ())
      = ((None, [Warning (py ''Error'') (py ''Failed to open project: '' @
           py ''Expecting property name enclosed in double quotes: line 1 column 2 (char 1)'')]),
         \<lparr>current_project = Some ?p\<rparr>, ())"
    by simp
  from open_project_guard [of ?f ?good "()" _ "\<lparr>current_project = None\<rparr>" ?p] chosen loads
  have second: "open_project ?good ?f (\<lparr>current_project = None\<rparr>, ())
      = ((Some ?p, []), \<lparr>current_project = Some ?p\<rparr>, ())"
    by simp
  from first second show ?thesis by blast
qed

lemma add_file_to_project_present:
  "current_project self = Some p \<Longrightarrow> file_path \<in> set (files p) \<Longrightarrow>
   add_file_to_project sys (self, w) file_path = (Inr (), self, w)"
  by (simp add: add_file_to_project_def Let_def)

lemma add_file_to_project_again:
  "snd (add_file_to_project sys (snd (add_file_to_project sys st file_path)) file_path)
   = snd (add_file_to_project sys st file_path)"
proof -
  obtain self w where st: "st = (self, w)" by (cases st)
  show ?thesis
  proof (cases "current_project self")
    case None
    with st show ?thesis by (simp add: add_file_to_project_def)
  next
    case (Some p)
    with st show ?thesis
      by (auto simp: add_file_to_project_def Let_def split: prod.splits option.splits)
  qed
qed

lemma add_loop_distinct:
  "distinct (files p) \<Longrightarrow>
   distinct (files (foldl (\<lambda>p file_path.
      if file_path \<notin> set (files p) then p\<lparr>files := files p @ [file_path]\<rparr> else p) p fs))"
  by (induction fs arbitrary: p) simp_all

lemma remove_loop_distinct:
  "distinct (files p) \<Longrightarrow>
   distinct (files (foldl (\<lambda>p file_path.
      if file_path \<in> set (files p) then p\<lparr>files := remove1 file_path (files p)\<rparr> else p) p fs))"
  by (induction fs arbitrary: p) simp_all

lemma call_distinct:
  assumes "no_duplicates st"
  shows "no_duplicates (snd (call sys st c))"
proof -
  obtain self w where st: "st = (self, w)" by (cases st)
  show ?thesis
  proof (cases "current_project self")
    case None
    with st show ?thesis
      by (cases c)
         (simp_all add: no_duplicates_def add_file_to_project_def remove_file_from_project_def
            add_file_def remove_file_def)
  next
    case (Some p)
    with assms st have d: "distinct (files p)"
      by (simp add: no_duplicates_def)
    show ?thesis
    proof (cases c)
      case (AddFileToProject f)
      with st Some d show ?thesis
        by (auto simp: no_duplicates_def add_file_to_project_def Let_def
            split: prod.splits option.splits)
    next
      case (RemoveFileFromProject f)
      with st Some d show ?thesis
        by (auto simp: no_duplicates_def remove_file_from_project_def Let_def
            split: prod.splits option.splits)
    next
      case (DialogAddFile fs)
      with st Some add_loop_distinct [OF d, of fs] show ?thesis
        by (auto simp: no_duplicates_def add_file_def Let_def split: prod.splits option.splits)
    next
      case (DialogRemoveFile fs)
      with st Some remove_loop_distinct [OF d, of fs] show ?thesis
        by (auto simp: no_duplicates_def remove_file_def Let_def
            split: prod.splits option.splits)
    qed
  qed
qed

lemma calls_distinct: "no_duplicates st \<Longrightarrow> no_duplicates (calls sys st cs)"
  by (induction cs arbitrary: st) (simp_all add: call_distinct)

lemma create_project_current:
  "create_project sys actions st = (Inr (Some p), st') \<Longrightarrow> current_project (fst st') = Some p"
  by (cases st)
     (auto simp: create_project_def Let_def split: prod.splits if_splits option.splits)

text \<open>
  C10. \<open>add_file_to_project\<close> with a path that is already in the files of the current
  project changes neither the project in memory nor the file system, so a second
  call with the same path changes nothing. Every sequence of calls of
  \<open>add_file_to_project\<close>, \<open>remove_file_from_project\<close> and of the two handlers of the
  files dialog keeps a list of files without duplicates free of duplicates, and a
  project that \<open>create_project\<close> returns starts with such a list.
\<close>

theorem add_file_to_project_idempotent:
  "(current_project self = Some p \<and> file_path \<in> set (files p) \<longrightarrow>
      add_file_to_project sys (self, w) file_path = (Inr (), self, w))
   \<and> snd (add_file_to_project sys (snd (add_file_to_project sys st file_path)) file_path)
       = snd (add_file_to_project sys st file_path)
   \<and> (no_duplicates st \<longrightarrow> no_duplicates (calls sys st cs))
   \<and> (create_project sys actions st0 = (Inr (Some p0), st1) \<longrightarrow> no_duplicates st1)"
proof -
  have created: "create_project sys actions st0 = (Inr (Some p0), st1) \<longrightarrow> no_duplicates st1"
    using create_project_current [of sys actions st0 p0 st1]
      create_project_named [of sys actions st0 p0 st1]
    by (auto simp: no_duplicates_def)
  with add_file_to_project_present [of self p file_path sys w]
    add_file_to_project_again [of sys st file_path] calls_distinct [of st sys cs]
  show ?thesis by blast
qed

theorem add_file_to_project_idempotent_witness:
  "add_file_to_project
     recording
     (\<lparr>current_project = Some \<lparr>name = py ''x'', path = py ''/home/p'', files = [py ''a'']\<rparr>\<rparr>,
      []) (py ''a'')
   = (Inr (),
      \<lparr>current_project = Some \<lparr>name = py ''x'', path = py ''/home/p'', files = [py ''a'']\<rparr>\<rparr>,
      [])
   \<and> no_duplicates (calls
     recording
     (\<lparr>current_project = Some \<lparr>name = py ''x'', path = py ''/home/p'', files = [py ''a'']\<rparr>\<rparr>,
      [])
     [AddFileToProject (py ''a''), DialogAddFile [py ''b'', py ''b''],
      RemoveFileFromProject (py ''a'')])"
proof -
  let ?sys = "recording :: ((str \<times> project option) list, project) system"
  let ?p = "\<lparr>name = py ''x'', path = py ''/home/p'', files = [py ''a'']\<rparr>"
  let ?self = "\<lparr>current_project = Some ?p\<rparr>"
  let ?w = "[] :: (str \<times> project option) list"
  have current: "current_project ?self = Some ?p \<and> py ''a'' \<in> set (files ?p)"
    by simp
  have start: "no_duplicates (?self, ?w)"
    by (simp add: no_duplicates_def)
  from add_file_to_project_idempotent [of ?self ?p "py ''a''" ?sys ?w "(?self, ?w)"
      "[AddFileToProject (py ''a''), DialogAddFile [py ''b'', py ''b''],
        RemoveFileFromProject (py ''a'')]"] current start
  show ?thesis by blast
qed

section \<open>Properties of ui/gitintegration.py\<close>

text \<open>
  C7. \<open>run_git_command\<close> returns \<open>(None, "No repository selected")\<close> and starts no
  subprocess when no repository path is passed and none is selected; otherwise it
  runs the command once in the repository and returns the exit code with the
  standard output followed by the standard error, or \<open>1\<close> with the text of the
  exception when starting the subprocess raises. Each of the nine Git operations is
  one call of \<open>run_git_command\<close>, so its result is such a pair and nothing more.
\<close>

theorem run_git_command_result:
  "(falsy repo_path \<and> falsy (current_repo self) \<longrightarrow>
      run_git_command run self launched command repo_path
      = ((None, py ''No repository selected''), launched))
   \<and> (cwd \<noteq> [] \<and> (repo_path = Some cwd \<or> falsy repo_path \<and> current_repo self = Some cwd) \<longrightarrow>
        (run command cwd = Inr result \<longrightarrow>
           run_git_command run self launched command repo_path
           = ((Some (returncode result), stdout result @ stderr result),
              launched @ [(command, cwd)]))
      \<and> (run command cwd = Inl e \<longrightarrow>
           run_git_command run self launched command repo_path
           = ((Some 1, str_of_error e), launched @ [(command, cwd)])))
   \<and> init_repo run self launched repo_path
       = run_git_command run self launched (py ''git init'') repo_path
   \<and> git_status run self launched repo_path
       = run_git_command run self launched (py ''git status'') repo_path
   \<and> git_add run self launched fs repo_path
       = run_git_command run self launched
           (if fs \<noteq> None \<and> fs \<noteq> Some [] then py ''git add '' @ join (py '' '') (the fs)
            else py ''git add .'') repo_path
   \<and> git_commit run self launched message repo_path
       = run_git_command run self launched (py ''git commit -m '' @ [34] @ message @ [34])
           repo_path
   \<and> git_push run self launched remote branch repo_path
       = run_git_command run self launched (py ''git push '' @ remote @ py '' '' @ branch)
           repo_path
   \<and> git_pull run self launched remote branch repo_path
       = run_git_command run self launched (py ''git pull '' @ remote @ py '' '' @ branch)
           repo_path
   \<and> git_branch run self launched repo_path
       = run_git_command run self launched (py ''git branch'') repo_path
   \<and> git_checkout run self launched branch repo_path
       = run_git_command run self launched (py ''git checkout '' @ branch) repo_path
   \<and> git_merge run self launched branch repo_path
       = run_git_command run self launched (py ''git merge '' @ branch) repo_path"
proof -
  have none: "falsy repo_path \<and> falsy (current_repo self) \<longrightarrow>
      run_git_command run self launched command repo_path
      = ((None, py ''No repository selected''), launched)"
    by (simp add: run_git_command_def Let_def)
  have some: "cwd \<noteq> [] \<and> (repo_path = Some cwd \<or> falsy repo_path \<and> current_repo self = Some cwd) \<longrightarrow>
        (run command cwd = Inr result \<longrightarrow>
           run_git_command run self launched command repo_path
           = ((Some (returncode result), stdout result @ stderr result),
              launched @ [(command, cwd)]))
      \<and> (run command cwd = Inl e \<longrightarrow>
           run_git_command run self launched command repo_path
           = ((Some 1, str_of_error e), launched @ [(command, cwd)]))"
    by (auto simp: run_git_command_def Let_def falsy_def)
  have ops: "init_repo run self launched repo_path
       = run_git_command run self launched (py ''git init'') repo_path"
    "git_status run self launched repo_path
       = run_git_command run self launched (py ''git status'') repo_path"
    "git_add run self launched fs repo_path
       = run_git_command run self launched
           (if fs \<noteq> None \<and> fs \<noteq> Some [] then py ''git add '' @ join (py '' '') (the fs)
            else py ''git add .'') repo_path"
    "git_commit run self launched message repo_path
       = run_git_command run self launched (py ''git commit -m '' @ [34] @ message @ [34])
           repo_path"
    "git_push run self launched remote branch repo_path
       = run_git_command run self launched (py ''git push '' @ remote @ py '' '' @ branch)
           repo_path"
    "git_pull run self launched remote branch repo_path
       = run_git_command run self launched (py ''git pull '' @ remote @ py '' '' @ branch)
           repo_path"
    "git_branch run self launched repo_path
       = run_git_command run self launched (py ''git branch'') repo_path"
    "git_checkout run self launched branch repo_path
       = run_git_command run self launched (py ''git checkout '' @ branch) repo_path"
    "git_merge run self launched branch repo_path
       = run_git_command run self launched (py ''git merge '' @ branch) repo_path"
    by (simp_all add: init_repo_def git_status_def git_add_def git_commit_def git_push_def
        git_pull_def git_branch_def git_checkout_def git_merge_def Let_def)
  from none some ops show ?thesis by blast
qed

theorem run_git_command_result_witness:
  "run_git_command
     (\<lambda>command cwd. if command = py ''git status''
        then Inr \<lparr>returncode = 0, stdout = py ''clean'', stderr = py ''!''\<rparr>
        else Inl (OSError (py ''boom'')))
     \<lparr>current_repo = None\<rparr> [] (py ''git status'') None
   = ((None, py ''No repository selected''), [])
   \<and> run_git_command
     (\<lambda>command cwd. if command = py ''git status''
        then Inr \<lparr>returncode = 0, stdout = py ''clean'', stderr = py ''!''\<rparr>
        else Inl (OSError (py ''boom'')))
     \<lparr>current_repo = Some (py ''/r'')\<rparr> [] (py ''git status'') None
   = ((Some 0, py ''clean!''), [(py ''git status'', py ''/r'')])
   \<and> run_git_command
     (\<lambda>command cwd. if command = py ''git status''
        then Inr \<lparr>returncode = 0, stdout = py ''clean'', stderr = py ''!''\<rparr>
        else Inl (OSError (py ''boom'')))
     \<lparr>current_repo = Some (py ''/r'')\<rparr> [] (py ''git init'') (Some (py ''/s''))
   = ((Some 1, py ''boom''), [(py ''git init'', py ''/s'')])"
proof -
  let ?run = "\<lambda>command cwd :: str. if command = py ''git status''
        then Inr \<lparr>returncode = 0, stdout = py ''clean'', stderr = py ''!''\<rparr>
        else Inl (OSError (py ''boom''))"
  have paths: "py ''/r'' \<noteq> []" "py ''/s'' \<noteq> []" "py ''git init'' \<noteq> py ''git status''"
    by (simp_all add: py_def)
  have joined: "py ''clean'' @ py ''!'' = py ''clean!''"
    by (simp add: py_def)
  from run_git_command_result [of None "\<lparr>current_repo = None\<rparr>" ?run "[]" "py ''git status''"]
  have first: "run_git_command ?run \<lparr>current_repo = None\<rparr> [] (py ''git status'') None
      = ((None, py ''No repository selected''), [])"
    by (simp add: falsy_def)
  from run_git_command_result [of None "\<lparr>current_repo = Some (py ''/r'')\<rparr>" ?run "[]"
      "py ''git status''" "py ''/r''" "\<lparr>returncode = 0, stdout = py ''clean'', stderr = py ''!''\<rparr>"]
    paths joined
  have second: "run_git_command ?run \<lparr>current_repo = Some (py ''/r'')\<rparr> [] (py ''git status'')
        None
      = ((Some 0, py ''clean!''), [(py ''git status'', py ''/r'')])"
    by (simp add: falsy_def)
  from run_git_command_result [of "Some (py ''/s'')" "\<lparr>current_repo = Some (py ''/r'')\<rparr>" ?run
      "[]" "py ''git init''" "py ''/s''" _ "OSError (py ''boom'')"] paths
  have third: "run_git_command ?run \<lparr>current_repo = Some (py ''/r'')\<rparr> [] (py ''git init'')
        (Some (py ''/s''))
      = ((Some 1, py ''boom''), [(py ''git init'', py ''/s'')])"
    by simp
  from first second third show ?thesis by blast
qed

end
